theory Spec2Isabelle
  imports Main "HOL-Library.Sublist"
begin

section \<open>Python strings\<close>

text \<open>
  A Python \<open>str\<close> is a sequence of Unicode code points, so a string is a list of
  code points here (\<open>len\<close> is \<open>length\<close>, the rupee sign is the single code point 8377).
  Literals of the source are written \<open>ustr ''...''\<close>. A value that may be Python's
  \<open>None\<close> is a \<open>pystr option\<close>.
\<close>

type_synonym pychar = nat
type_synonym pystr = "pychar list"

definition ustr :: "string \<Rightarrow> pystr" where
  "ustr s = map of_char s"

text \<open>Truthiness of a value that is a string or \<open>None\<close>: \<open>if v:\<close>.\<close>

fun truthy :: "pystr option \<Rightarrow> bool" where
  "truthy None = False"
| "truthy (Some s) = (s \<noteq> [])"

text \<open>\<open>v or ""\<close>.\<close>

fun or_empty :: "pystr option \<Rightarrow> pystr" where
  "or_empty None = []"
| "or_empty (Some s) = s"

text \<open>
  The code points that \<open>str.strip()\<close> and \<open>str.split()\<close> treat as whitespace
  (those for which \<open>str.isspace\<close> holds).
\<close>

definition py_isspace :: "pychar \<Rightarrow> bool" where
  "py_isspace c = ((9 \<le> c \<and> c \<le> 13) \<or> (28 \<le> c \<and> c \<le> 32) \<or> c = 133 \<or> c = 160
     \<or> c = 5760 \<or> (8192 \<le> c \<and> c \<le> 8202) \<or> c = 8232 \<or> c = 8233 \<or> c = 8239
     \<or> c = 8287 \<or> c = 12288)"

definition py_strip :: "pystr \<Rightarrow> pystr" where
  "py_strip s = rev (dropWhile py_isspace (rev (dropWhile py_isspace s)))"

text \<open>
  \<open>str.lower()\<close> belongs to the Python runtime: its result is read off the Unicode case
  tables, may change the length of the string and depends on the context of a letter.
  None of that is part of the repository, so every function that calls \<open>.lower()\<close>
  takes the lower-casing function as its parameter \<open>lower\<close>, and every theorem about
  such a function holds for whatever \<open>lower\<close> is, \<open>str.lower\<close> included.

  On a string of ASCII code points \<open>str.lower\<close> is \<open>ascii_lower\<close>; it stands for
  \<open>lower\<close> where a concrete ASCII input is evaluated.
\<close>

definition ascii_lower :: "pystr \<Rightarrow> pystr" where
  "ascii_lower s = map (\<lambda>c. if 65 \<le> c \<and> c \<le> 90 then c + 32 else c) s"

text \<open>\<open>sub in s\<close>: \<open>sub\<close> occurs in \<open>s\<close> as a contiguous substring.\<close>

fun py_in :: "pystr \<Rightarrow> pystr \<Rightarrow> bool" where
  "py_in sub [] = (sub = [])"
| "py_in sub (c # cs) = (prefix sub (c # cs) \<or> py_in sub cs)"

text \<open>\<open>s.split(sep)\<close> for a separator of one code point.\<close>

fun split_char :: "pychar \<Rightarrow> pystr \<Rightarrow> pystr list" where
  "split_char sep [] = [[]]"
| "split_char sep (c # cs) =
     (if c = sep then [] # split_char sep cs
      else (case split_char sep cs of
              [] \<Rightarrow> [[c]]
            | w # ws \<Rightarrow> (c # w) # ws))"

section \<open>Whitelist classifier (app.py)\<close>

text \<open>\<open>load_whitelisted_sellers\<close>, from the value of \<open>WHITELISTED_SELLERS\<close>.\<close>

definition load_whitelisted_sellers :: "pystr \<Rightarrow> pystr list" where
  "load_whitelisted_sellers whitelisted_str =
     (if whitelisted_str = [] then []
      else map py_strip (filter (\<lambda>seller. py_strip seller \<noteq> [])
             (split_char 44 whitelisted_str)))"

definition names_to_check :: "pystr option \<Rightarrow> pystr option \<Rightarrow> pystr list" where
  "names_to_check seller_name manufacturer_name =
     (case seller_name of
        None \<Rightarrow> []
      | Some s \<Rightarrow> if s \<noteq> [] then [py_strip s] else [])
     @ (case manufacturer_name of
        None \<Rightarrow> []
      | Some m \<Rightarrow> if m \<noteq> [] then [py_strip m] else [])"

text \<open>The inner loop over the allow-list, for one name.\<close>

fun matches_whitelisted :: "(pystr \<Rightarrow> pystr) \<Rightarrow> pystr \<Rightarrow> pystr list \<Rightarrow> bool" where
  "matches_whitelisted lower name [] = False"
| "matches_whitelisted lower name (whitelisted # rest) =
     (if lower name = lower whitelisted
         \<or> py_in (lower whitelisted) (lower name)
         \<or> py_in (lower name) (lower whitelisted)
      then True
      else matches_whitelisted lower name rest)"

text \<open>The outer loop over the names, returning at the first match.\<close>

fun check_names :: "(pystr \<Rightarrow> pystr) \<Rightarrow> pystr list \<Rightarrow> pystr list \<Rightarrow> pystr" where
  "check_names lower [] whitelisted_sellers = ustr ''False''"
| "check_names lower (name # names) whitelisted_sellers =
     (if name = [] then check_names lower names whitelisted_sellers
      else if matches_whitelisted lower name whitelisted_sellers then ustr ''Whitelisted''
      else check_names lower names whitelisted_sellers)"

definition check_whitelisted_seller ::
    "(pystr \<Rightarrow> pystr) \<Rightarrow> pystr list \<Rightarrow> pystr option \<Rightarrow> pystr option \<Rightarrow> pystr" where
  "check_whitelisted_seller lower whitelisted_sellers seller_name manufacturer_name =
     (if whitelisted_sellers = [] then ustr ''False''
      else check_names lower (names_to_check seller_name manufacturer_name)
             whitelisted_sellers)"

section \<open>Pages and the field resolver (platforms/base.py)\<close>

text \<open>
  \<open>s.split()\<close>: the maximal runs of non-whitespace code points; and \<open>sep.join(ws)\<close>.
\<close>

fun split_ws :: "pystr \<Rightarrow> pystr \<Rightarrow> pystr list" where
  "split_ws cur [] = (if cur = [] then [] else [cur])"
| "split_ws cur (c # cs) =
     (if py_isspace c then (if cur = [] then split_ws [] cs else cur # split_ws [] cs)
      else split_ws (cur @ [c]) cs)"

definition py_split :: "pystr \<Rightarrow> pystr list" where
  "py_split s = split_ws [] s"

fun py_join :: "pystr \<Rightarrow> pystr list \<Rightarrow> pystr" where
  "py_join sep [] = []"
| "py_join sep [w] = w"
| "py_join sep (w # ws) = w @ sep @ py_join sep ws"

text \<open>\<open>s.startswith(p)\<close> is \<open>prefix p s\<close>.\<close>

text \<open>
  The browser page is the environment of every extractor. The model keeps what the
  extractors read from it. An exception raised by a page call is a value \<open>Inl e\<close>;
  all of them are instances of \<open>Exception\<close>: \<open>PageError\<close> stands for what the
  browser raises, \<open>OSError\<close> for a failed file operation and \<open>TypeError\<close> for the
  error of the interpreter itself.
  \<^item> \<open>inner_text page sel\<close>: the outcome of \<open>loc = page.locator(sel)\<close>,
    \<open>loc.count() > 0\<close> and \<open>loc.first.inner_text()\<close>: an exception, no match
    (\<open>Inr None\<close>) or the text of the first match;
  \<^item> \<open>attrs page sel\<close>: the same for \<open>loc.first.get_attribute(name)\<close>, the
    attributes of the first match as a map;
  \<^item> \<open>og_image page\<close>: what the \<open>og:image\<close> script passed to \<open>page.evaluate\<close> returns;
  \<^item> \<open>page_title page\<close>: \<open>page.title()\<close>; \<open>url page\<close>: \<open>page.url\<close>.
\<close>

datatype exn = PageError | OSError | TypeError

record page =
  url :: pystr
  inner_text :: "string \<Rightarrow> exn + pystr option"
  attrs :: "string \<Rightarrow> exn + (string \<Rightarrow> pystr option) option"
  og_image :: "exn + pystr option"
  page_title :: "exn + pystr"

fun first_text :: "page \<Rightarrow> string list \<Rightarrow> pystr option" where
  "first_text page [] = None"
| "first_text page (sel # selectors) =
     (case inner_text page sel of
        Inl e \<Rightarrow> first_text page selectors
      | Inr None \<Rightarrow> first_text page selectors
      | Inr (Some raw) \<Rightarrow>
          (let text = py_strip raw
           in if text \<noteq> [] then Some (py_join (ustr '' '') (py_split text))
              else first_text page selectors))"

fun text_by_xpath :: "page \<Rightarrow> string list \<Rightarrow> pystr option" where
  "text_by_xpath page [] = None"
| "text_by_xpath page (xp # xpaths) =
     (case inner_text page (''xpath='' @ xp) of
        Inl e \<Rightarrow> text_by_xpath page xpaths
      | Inr None \<Rightarrow> text_by_xpath page xpaths
      | Inr (Some raw) \<Rightarrow>
          (let txt = py_strip raw
           in if txt \<noteq> [] then Some (py_join (ustr '' '') (py_split txt))
              else text_by_xpath page xpaths))"

text \<open>
  The test \<open>u and u.strip() and u.startswith(("http", "//"))\<close> and the value returned
  when it holds, shared by both halves of \<open>get_image_url\<close>.
\<close>

definition valid_image_url :: "pystr option \<Rightarrow> bool" where
  "valid_image_url u =
     (case u of
        None \<Rightarrow> False
      | Some s \<Rightarrow> s \<noteq> [] \<and> py_strip s \<noteq> []
                  \<and> (prefix (ustr ''http'') s \<or> prefix (ustr ''//'') s))"

definition fix_image_url :: "pystr \<Rightarrow> pystr" where
  "fix_image_url s =
     py_strip (if prefix (ustr ''//'') s then ustr ''https:'' @ s else s)"

text \<open>\<open>src\<close>, else \<open>data-src\<close>, else \<open>data-lazy-src\<close> (\<open>if not img_url\<close>).\<close>

definition img_attr :: "(string \<Rightarrow> pystr option) \<Rightarrow> pystr option" where
  "img_attr a =
     (let img_url = a ''src'';
          img_url = (if \<not> truthy img_url then a ''data-src'' else img_url);
          img_url = (if \<not> truthy img_url then a ''data-lazy-src'' else img_url)
      in img_url)"

fun image_from_selectors :: "page \<Rightarrow> string list \<Rightarrow> pystr option" where
  "image_from_selectors page [] = None"
| "image_from_selectors page (sel # selectors) =
     (case attrs page sel of
        Inl e \<Rightarrow> image_from_selectors page selectors
      | Inr None \<Rightarrow> image_from_selectors page selectors
      | Inr (Some a) \<Rightarrow>
          (if valid_image_url (img_attr a)
           then Some (fix_image_url (or_empty (img_attr a)))
           else image_from_selectors page selectors))"

definition get_image_url :: "page \<Rightarrow> string list \<Rightarrow> bool \<Rightarrow> pystr option" where
  "get_image_url page selectors use_og_meta =
     (if use_og_meta then
        (case og_image page of
           Inr og \<Rightarrow>
             (if valid_image_url og then Some (fix_image_url (or_empty og))
              else image_from_selectors page selectors)
         | Inl e \<Rightarrow> image_from_selectors page selectors)
      else image_from_selectors page selectors)"

text \<open>
  What one selector contributes to the resolver, in the words of the specification: the
  whitespace-normalized text of its first match when that text is non-empty, and no
  result when the selector raises, matches nothing or yields only whitespace.
\<close>

definition selector_result :: "page \<Rightarrow> string \<Rightarrow> pystr option" where
  "selector_result page sel =
     (case inner_text page sel of
        Inl e \<Rightarrow> None
      | Inr None \<Rightarrow> None
      | Inr (Some raw) \<Rightarrow>
          if py_strip raw \<noteq> [] then Some (py_join (ustr '' '') (py_split (py_strip raw)))
          else None)"


definition example_page :: page where
  "example_page =
     \<lparr> url = ustr ''https://shop.example/p/1'',
       inner_text = (\<lambda>sel. if sel = ''h1.title'' then Inl PageError
                           else if sel = ''h1'' then Inr (Some (ustr ''   ''))
                           else if sel = ''.product-title'' then Inr (Some (ustr '' Widget   Pro ''))
                           else Inr None),
       attrs = (\<lambda>sel. Inr None),
       og_image = Inr None,
       page_title = Inl PageError \<rparr>"

section \<open>Product records and the common extraction (platforms/base.py)\<close>

text \<open>
  The dictionaries the extractors return have a fixed set of keys, so they are records;
  every value is a string or \<open>None\<close>. \<open>extract_common_data\<close> returns the five
  fields, the extractors add \<open>product_url\<close>.
\<close>

record common_data =
  title :: "pystr option"
  price :: "pystr option"
  seller_name :: "pystr option"
  manufacturer_name :: "pystr option"
  image_url :: "pystr option"

record product_data = common_data +
  product_url :: "pystr option"

text \<open>
  \<open>extract_common_data\<close>. No call in its \<open>try\<close> block raises (the resolvers swallow
  every exception of the page), so the \<open>except\<close> branch, which returns five empty
  strings, is never taken in the model.
\<close>

definition extract_common_data :: "page \<Rightarrow> common_data" where
  "extract_common_data page =
     (let title = first_text page
            [''h1[id='title']'', ''h1[data-automation-id='product-title']'',
             ''h1.product-title'', ''h1'', ''.product-title'',
             ''[data-testid='product-title']''];
          price = first_text page
            [''.a-price-whole'', ''.a-price .a-offscreen'', ''.price'', ''.product-price'',
             ''[data-testid='price']'', ''.a-price-range''];
          seller_name = first_text page
            [''#sellerProfileTriggerId'', ''.a-size-small.a-color-secondary'',
             ''.seller-name'', ''[data-testid='seller-name']''];
          manufacturer_name = first_text page
            [''#bylineInfo'', ''.a-size-small.a-color-secondary'', ''.manufacturer-name'',
             ''[data-testid='manufacturer-name']''];
          image_url = get_image_url page
            [''#landingImage'', ''.a-dynamic-image'', ''img[data-old-hires]'',
             ''img[data-src]'', ''img[src]''] True
      in \<lparr> title = Some (or_empty title),
           price = Some (or_empty price),
           seller_name = Some (or_empty seller_name),
           manufacturer_name = Some (or_empty manufacturer_name),
           image_url = Some (or_empty image_url) \<rparr>)"

section \<open>The Amazon extractor (platforms/amazon.py)\<close>

text \<open>
  \<open>\d\<close> in a \<open>str\<close> pattern matches the Unicode decimal digits. In ASCII these are
  \<open>0\<close> to \<open>9\<close>; beyond ASCII the property is a table of the Python runtime, the
  parameter \<open>isdecimal\<close>.
\<close>

definition re_digit :: "(pychar \<Rightarrow> bool) \<Rightarrow> pychar \<Rightarrow> bool" where
  "re_digit isdecimal c = (if c < 128 then 48 \<le> c \<and> c \<le> 57 else isdecimal c)"

text \<open>The code points \<open>re.sub(r'[^\d.,R]', '', price)\<close> keeps, \<open>R\<close> the rupee sign 8377.\<close>

definition price_char :: "(pychar \<Rightarrow> bool) \<Rightarrow> pychar \<Rightarrow> bool" where
  "price_char isdecimal c = (re_digit isdecimal c \<or> c = 46 \<or> c = 44 \<or> c = 8377)"

text \<open>The Amazon-specific price cleaning of \<open>extract_product_data\<close> (lines 74 to 77).\<close>

definition clean_price :: "(pychar \<Rightarrow> bool) \<Rightarrow> pystr \<Rightarrow> pystr" where
  "clean_price isdecimal price0 =
     (let price = filter (price_char isdecimal) price0
      in if 8377 \<notin> set price \<and> \<not> prefix (ustr ''$'') price then 8377 # price else price)"

text \<open>\<open>s.split(sep)[0]\<close> for a non-empty \<open>sep\<close>: the text before its first occurrence.\<close>

fun before_sep :: "pystr \<Rightarrow> pystr \<Rightarrow> pystr" where
  "before_sep sep [] = []"
| "before_sep sep (c # cs) = (if prefix sep (c # cs) then [] else c # before_sep sep cs)"

text \<open>\<open>s.strip(':')\<close>.\<close>

definition strip_colon :: "pystr \<Rightarrow> pystr" where
  "strip_colon s = rev (dropWhile (\<lambda>c. c = 58) (rev (dropWhile (\<lambda>c. c = 58) s)))"

text \<open>\<open>re.sub(r'^(Brand:|Manufacturer:)\s*', '', s)\<close>; \<open>^\<close> matches at the start only.\<close>

definition strip_label :: "pystr \<Rightarrow> pystr" where
  "strip_label s =
     (if prefix (ustr ''Brand:'') s then dropWhile py_isspace (drop 6 s)
      else if prefix (ustr ''Manufacturer:'') s then dropWhile py_isspace (drop 13 s)
      else s)"

definition clean_manufacturer :: "pystr \<Rightarrow> pystr" where
  "clean_manufacturer manufacturer0 =
     (let manufacturer = strip_label manufacturer0;
          manufacturer = py_strip (strip_colon (py_strip manufacturer));
          manufacturer = py_strip (before_sep (ustr ''Packer'') manufacturer);
          manufacturer = py_strip (before_sep (ustr ''Seller'') manufacturer);
          manufacturer = py_strip (before_sep (ustr ''Imported by'') manufacturer);
          manufacturer = py_strip (before_sep (ustr ''Brand:'') manufacturer);
          manufacturer = py_strip (before_sep (ustr ''Manufacturer:'') manufacturer)
      in manufacturer)"

text \<open>
  \<open>AmazonExtractor.extract_product_data\<close> updates the dictionary \<open>common_data\<close> in five
  commented blocks, one definition each here, in the order of the source.
\<close>

text \<open>Block "Amazon-specific price cleaning".\<close>

definition amazon_price :: "(pychar \<Rightarrow> bool) \<Rightarrow> common_data \<Rightarrow> common_data" where
  "amazon_price isdecimal common_data =
     (if truthy (price common_data)
      then common_data\<lparr>price := Some (clean_price isdecimal (or_empty (price common_data)))\<rparr>
      else common_data)"

text \<open>Block "Handle Out of stock scenario".\<close>

definition amazon_out_of_stock :: "(pystr \<Rightarrow> pystr) \<Rightarrow> page \<Rightarrow> common_data \<Rightarrow> common_data" where
  "amazon_out_of_stock lower page common_data =
     (let out_of_stock = first_text page
            [''div#availability span'', ''div#outOfStock'', ''div#unavailable'',
             ''span.a-size-medium.a-color-state'']
      in if truthy out_of_stock
            \<and> py_in (ustr ''out of stock'') (lower (or_empty out_of_stock))
         then common_data\<lparr>price := Some (ustr ''Out of stock'')\<rparr>
         else common_data)"

text \<open>Block "Amazon-specific seller extraction".\<close>

definition amazon_seller :: "page \<Rightarrow> common_data \<Rightarrow> common_data" where
  "amazon_seller page common_data =
     (if \<not> truthy (seller_name common_data) then
        (let seller = first_text page
               [''span#bylineInfo'', ''a#bylineInfo'', ''a.a-link-normal'',
                ''div#merchant-info'', ''div#sellerProfileTriggerId'',
                ''div#sellerProfileTriggerId span''];
             seller =
               (if \<not> truthy seller then text_by_xpath page
                  [''//span[contains(text(),'Sold by')]/following-sibling::span[1]'',
                   ''//span[contains(text(),'Ships from')]/following-sibling::span[1]'',
                   ''//a[contains(@id, 'sellerProfileTriggerId')]'',
                   ''//div[contains(@id, 'merchant-info')]//a'']
                else seller)
         in common_data\<lparr>seller_name := Some (or_empty seller)\<rparr>)
      else common_data)"

text \<open>
  Block "Amazon-specific manufacturer extraction"; the assignment to
  \<open>common_data['manufacturer_name']\<close> is inside \<open>if manufacturer:\<close>.
\<close>

definition amazon_manufacturer :: "page \<Rightarrow> common_data \<Rightarrow> common_data" where
  "amazon_manufacturer page common_data =
     (if \<not> truthy (manufacturer_name common_data) then
        (let manufacturer = text_by_xpath page
               [''//ul[@class='a-unordered-list a-nostyle a-vertical a-spacing-none detail-bullet-list']/li[contains(., 'Brand:')]'',
                ''//ul[@class='a-unordered-list a-nostyle a-vertical a-spacing-none detail-bullet-list']/li[contains(., 'Manufacturer:')]'',
                ''//div[@id='productDetails_detailBullets_sections1']//th[contains(text(), 'Brand')]/following-sibling::td'',
                ''//div[@id='productDetails_detailBullets_sections1']//th[contains(text(), 'Manufacturer')]/following-sibling::td'',
                ''//div[@id='productDetails']//th[contains(text(), 'Brand')]/following-sibling::td'',
                ''//div[@id='productDetails']//th[contains(text(), 'Manufacturer')]/following-sibling::td'',
                ''//div[@id='detailBulletsWrapper_feature_div']//span[contains(text(), 'Brand')]/following-sibling::span'',
                ''//div[@id='detailBulletsWrapper_feature_div']//span[contains(text(), 'Manufacturer')]/following-sibling::span'']
         in if truthy manufacturer
            then common_data\<lparr>manufacturer_name :=
                   Some (clean_manufacturer (or_empty manufacturer))\<rparr>
            else common_data)
      else common_data)"

text \<open>Block "Amazon-specific image extraction".\<close>

definition amazon_image :: "page \<Rightarrow> common_data \<Rightarrow> common_data" where
  "amazon_image page common_data =
     (if \<not> truthy (image_url common_data) then
        (let image_url = get_image_url page
               [''img#landingImage'', ''img#imgBlkFront'', ''img#main-image'',
                ''img#imageBlockFront'', ''img#productImage'', ''img#acrImage''] True
         in common_data\<lparr>image_url := Some (or_empty image_url)\<rparr>)
      else common_data)"

text \<open>
  The whole function. The wait for the title selector is wrapped in its own \<open>try\<close> with
  a bare \<open>except\<close> and changes nothing. No later call raises in the model, so the outer
  \<open>except\<close> branch (all fields empty, \<open>product_url = page.url\<close>) is never taken.
\<close>

definition amazon_extract_product_data ::
    "(pychar \<Rightarrow> bool) \<Rightarrow> (pystr \<Rightarrow> pystr) \<Rightarrow> page \<Rightarrow> product_data" where
  "amazon_extract_product_data isdecimal lower page =
     (let common_data = extract_common_data page;
          common_data = amazon_price isdecimal common_data;
          common_data = amazon_out_of_stock lower page common_data;
          common_data = amazon_seller page common_data;
          common_data = amazon_manufacturer page common_data;
          common_data = amazon_image page common_data
      in common_data.extend common_data \<lparr> product_url = Some (url page) \<rparr>)"

section \<open>The Generic extractor (platforms/generic.py)\<close>

text \<open>
  Selectors are opaque keys for the page; the two currency signs outside ASCII that
  occur in them are written as their UTF-8 bytes, between quotes \<open>CHR 0x27\<close>.
\<close>

definition rupee_sign :: string where
  "rupee_sign = [CHR 0xE2, CHR 0x82, CHR 0xB9]"

definition euro_sign :: string where
  "euro_sign = [CHR 0xE2, CHR 0x82, CHR 0xAC]"

text \<open>
  The \<open>for suffix in [...]\<close> loop over the page title with its \<open>else\<close> branch: the text
  before the first listed suffix that occurs, or the whole page title.
\<close>

fun title_without_suffix :: "pystr list \<Rightarrow> pystr \<Rightarrow> pystr" where
  "title_without_suffix [] ptitle = ptitle"
| "title_without_suffix (sfx # rest) ptitle =
     (if py_in sfx ptitle then py_strip (before_sep sfx ptitle)
      else title_without_suffix rest ptitle)"

definition generic_title :: "page \<Rightarrow> pystr option" where
  "generic_title page =
     (let title = first_text page
            [''h1'', ''h1.product-title'', ''h1.title'', ''.product-name'',
             ''[data-testid*='title']'', ''[data-test*='title']'',
             ''.product-title'', ''.item-title'', ''.goods-title''];
          title =
            (if \<not> truthy title then first_text page
               [''[itemprop='name']'', ''[itemtype*='Product'] h1'',
                ''meta[property='og:title']'']
             else title)
      in if \<not> truthy title then
           (case page_title page of
              Inl e \<Rightarrow> None
            | Inr pt \<Rightarrow> Some (title_without_suffix
                [ustr '' | Buy Online'', ustr '' - Buy Now'', ustr '' | Shop'',
                 ustr '' - Price'', ustr '' | Best Price''] pt))
         else title)"

definition generic_price :: "page \<Rightarrow> pystr option" where
  "generic_price page =
     (let price = first_text page
            [''[itemprop='price']'', ''[itemprop='lowPrice']'', ''[itemprop='highPrice']'',
             ''[data-test*='price']'', ''[data-testid*='price']'',
             ''.price'', ''.product-price'', ''.current-price'', ''.sale-price'',
             ''.price-current'', ''.price-now'', ''.final-price''];
          price =
            (if \<not> truthy price then first_text page
               [''[class*='rupee']'', ''[class*='dollar']'', ''[class*='euro']'',
                ''[class*='' @ [CHR 0x27] @ rupee_sign @ [CHR 0x27] @ '']'', ''[class*='$']'',
                ''[class*='' @ [CHR 0x27] @ euro_sign @ [CHR 0x27] @ '']'',
                ''.amount'', ''.cost'', ''.rate'', ''.value'']
             else price)
      in if \<not> truthy price then text_by_xpath page
           [''//*[contains(text(),'' @ [CHR 0x27] @ rupee_sign @ [CHR 0x27]
              @ '') or contains(text(),'$') or contains(text(),'' @ [CHR 0x27]
              @ euro_sign @ [CHR 0x27] @ '')][string-length(text()) < 20]'',
            ''//*[contains(@class,'price') or contains(@id,'price')]'']
         else price)"

definition generic_seller :: "page \<Rightarrow> pystr option" where
  "generic_seller page =
     (let seller = first_text page
            [''[itemprop='brand']'', ''[itemprop='manufacturer']'',
             ''.seller-name'', ''.brand-name'', ''.manufacturer'',
             ''[data-testid*='seller']'', ''[data-testid*='brand']'',
             ''a.seller'', ''.brand'', ''.company'']
      in if \<not> truthy seller then text_by_xpath page
           [''//*[contains(normalize-space(),'Sold by')]/following-sibling::*[1]'',
            ''//*[contains(normalize-space(),'Sold by')]/following::a[1]'',
            ''//*[contains(normalize-space(),'Brand:')]/following-sibling::*[1]'',
            ''//*[contains(normalize-space(),'Seller:')]/following-sibling::*[1]'']
         else seller)"

definition generic_manufacturer :: "page \<Rightarrow> pystr option \<Rightarrow> pystr option" where
  "generic_manufacturer page seller =
     (let manufacturer = first_text page
            [''[itemprop='manufacturer']'', ''.manufacturer-name'',
             ''[data-testid*='manufacturer']''];
          manufacturer =
            (if \<not> truthy manufacturer then text_by_xpath page
               [''//tr[td[contains(translate(text(),'ABCDEFGHIJKLMNOPQRSTUVWXYZ','abcdefghijklmnopqrstuvwxyz'),'manufacturer')]]/td[2]'',
                ''//tr[th[contains(translate(text(),'ABCDEFGHIJKLMNOPQRSTUVWXYZ','abcdefghijklmnopqrstuvwxyz'),'manufacturer')]]/td[1]'',
                ''//div[contains(translate(text(),'ABCDEFGHIJKLMNOPQRSTUVWXYZ','abcdefghijklmnopqrstuvwxyz'),'manufacturer')]/following-sibling::div[1]'']
             else manufacturer)
      in if \<not> truthy manufacturer \<and> truthy seller then seller else manufacturer)"

text \<open>
  \<open>GenericExtractor.extract_product_data\<close>: the values found are returned as they are,
  \<open>None\<close> included.
\<close>

definition generic_extract_product_data :: "page \<Rightarrow> product_data" where
  "generic_extract_product_data page =
     (let title = generic_title page;
          price = generic_price page;
          seller = generic_seller page;
          manufacturer = generic_manufacturer page seller;
          image_url = get_image_url page
            [''img[alt*='product']'', ''.product-image img'', ''.main-image img'',
             ''img.product'', ''.gallery img'', ''.item-image img'',
             ''img[src*='product']'', ''[class*='image'] img'', ''.img img''] False
      in \<lparr> title = title, price = price, seller_name = seller,
           manufacturer_name = manufacturer, image_url = image_url,
           product_url = Some (url page) \<rparr>)"

text \<open>A product page with a heading and nothing else the selectors know.\<close>

definition heading_only_page :: page where
  "heading_only_page =
     \<lparr> url = ustr ''https://shop.example/item/42'',
       inner_text = (\<lambda>sel. if sel = ''h1'' then Inr (Some (ustr ''Widget'')) else Inr None),
       attrs = (\<lambda>sel. Inr None),
       og_image = Inr None,
       page_title = Inr (ustr ''Widget | Shop'') \<rparr>"

text \<open>Every field of a record is a string, none is \<open>None\<close>.\<close>

definition all_strings :: "'a common_data_scheme \<Rightarrow> bool" where
  "all_strings d = (title d \<noteq> None \<and> price d \<noteq> None \<and> seller_name d \<noteq> None
     \<and> manufacturer_name d \<noteq> None \<and> image_url d \<noteq> None)"

section \<open>The platform registry (platforms/__init__.py, platforms/base.py)\<close>

text \<open>
  The extractor classes of the package, all of them direct subclasses of
  \<open>BaseExtractor\<close>, and the four methods \<open>BaseExtractor\<close> declares with
  \<open>@abstractmethod\<close>.
\<close>

datatype extractor_class =
    AmazonExtractor | FlipkartExtractor | MyntraExtractor | MeeshoExtractor
  | AjioExtractor | EbayExtractor | RedbubbleExtractor | SnapdealExtractor
  | ShopsyExtractor | NykaaExtractor | TataCliqExtractor | IndiaMARTExtractor
  | WalmartExtractor | GenericExtractor

datatype capability =
  Extract_product_data | Get_product_links | Go_to_next_page | Extract_variants

definition abstract_methods :: "capability list" where
  "abstract_methods =
     [Extract_product_data, Get_product_links, Go_to_next_page, Extract_variants]"

text \<open>
  Which of the four each class body defines. \<open>AmazonExtractor\<close> defines all of them;
  every other class defines \<open>get_product_links\<close> and \<open>extract_product_data\<close> (and
  helpers of its own), and neither \<open>go_to_next_page\<close> nor \<open>extract_variants\<close>.
\<close>

fun overrides :: "extractor_class \<Rightarrow> capability list" where
  "overrides AmazonExtractor =
     [Get_product_links, Extract_product_data, Go_to_next_page, Extract_variants]"
| "overrides c = [Get_product_links, Extract_product_data]"

definition PLATFORM_EXTRACTORS :: "(string \<times> extractor_class) list" where
  "PLATFORM_EXTRACTORS =
     [(''amazon'', AmazonExtractor), (''flipkart'', FlipkartExtractor),
      (''myntra'', MyntraExtractor), (''meesho'', MeeshoExtractor),
      (''ajio'', AjioExtractor), (''ebay'', EbayExtractor),
      (''redbubble'', RedbubbleExtractor), (''snapdeal'', SnapdealExtractor),
      (''shopsy'', ShopsyExtractor), (''nykaa'', NykaaExtractor),
      (''tatacliq'', TataCliqExtractor), (''indiamart'', IndiaMARTExtractor),
      (''walmart'', WalmartExtractor), (''generic'', GenericExtractor)]"

text \<open>\<open>PLATFORM_EXTRACTORS.get(platform, GenericExtractor)\<close>.\<close>

definition get_extractor :: "string \<Rightarrow> extractor_class" where
  "get_extractor platform =
     (case map_of PLATFORM_EXTRACTORS platform of
        Some c \<Rightarrow> c
      | None \<Rightarrow> GenericExtractor)"

text \<open>
  \<open>extractor_class()\<close>. \<open>BaseExtractor\<close> derives from \<open>ABC\<close>, so calling a class
  raises \<open>TypeError\<close> ("Can't instantiate abstract class ... with abstract methods ...")
  as long as one of the abstract methods is not overridden; otherwise \<open>__init__\<close> runs,
  which only assigns two attributes, and the object has the methods of its class.
\<close>

definition missing_methods :: "extractor_class \<Rightarrow> capability list" where
  "missing_methods c = filter (\<lambda>m. m \<notin> set (overrides c)) abstract_methods"

definition instantiate :: "extractor_class \<Rightarrow> exn + extractor_class" where
  "instantiate c = (if missing_methods c = [] then Inr c else Inl TypeError)"

section \<open>The scraping session (app.py)\<close>

text \<open>
  A variant dictionary is a product dictionary with six more keys
  (\<open>_extract_amazon_variant_data\<close>).
\<close>

record variant_data = product_data +
  variant_product_url :: pystr
  main_product_url :: pystr
  variant_price :: "pystr option"
  variant_type :: pystr
  variant_option :: pystr
  variant_asin :: pystr

text \<open>
  The rows \<open>writer.writerow\<close> receives in \<open>save_product_to_csv\<close> and
  \<open>save_variant_to_csv\<close>, cell by cell; \<open>is_whitelisted\<close> is the value the caller has
  stored under that key. In a product row the title is cell 1 and the price cell 2, in
  a variant row they are cells 2 and 3.
\<close>

type_synonym row = "pystr option list"

definition product_row :: "product_data \<Rightarrow> pystr \<Rightarrow> row" where
  "product_row product_data is_whitelisted =
     [product_url product_data, title product_data, price product_data,
      seller_name product_data, manufacturer_name product_data, image_url product_data,
      Some is_whitelisted]"

definition variant_row :: "variant_data \<Rightarrow> pystr \<Rightarrow> row" where
  "variant_row variant_data is_whitelisted =
     [Some (variant_product_url variant_data), Some (main_product_url variant_data),
      title variant_data, variant_price variant_data, seller_name variant_data,
      manufacturer_name variant_data, image_url variant_data, Some is_whitelisted]"

text \<open>
  The state of a run: the data rows of the two CSV files, the counters of the
  functions, and four counters of the model that number the calls made so far
  (\<open>appends\<close>: calls of the two save functions; \<open>tabs\<close>: product tabs opened;
  \<open>link_calls\<close>: calls of \<open>get_product_links\<close>; \<open>next_calls\<close>: calls of
  \<open>go_to_next_page\<close>).
\<close>

record session =
  products_csv :: "row list"
  variants_csv :: "row list"
  total_products :: nat
  total_variants :: nat
  current_page :: int
  appends :: nat
  tabs :: nat
  link_calls :: nat
  next_calls :: nat

text \<open>
  \<open>setup_results_directory\<close> creates both files anew with their header rows; the
  counters start as the functions initialise them.
\<close>

definition new_session :: session where
  "new_session =
     \<lparr> products_csv = [], variants_csv = [], total_products = 0, total_variants = 0,
       current_page = 1, appends = 0, tabs = 0, link_calls = 0, next_calls = 0 \<rparr>"

text \<open>
  What a run meets outside the program, call by call. Every call may raise.
  \<^item> \<open>browser_starts\<close>: launching the browser, opening the start URL, the waits and
    scrolls before the first page is read; \<open>browser_closes\<close>: \<open>browser.close()\<close>;
  \<^item> \<open>links_found k\<close>: call \<open>k\<close> of \<open>extractor.get_product_links(page, 50)\<close>;
  \<^item> \<open>next_page_result k\<close>: call \<open>k\<close> of \<open>extractor.go_to_next_page(page)\<close>, and
    \<open>page_settles k\<close>: the waits and scrolls that follow when it returned true;
  \<^item> for product tab \<open>n\<close>: \<open>tab_opens n\<close> (\<open>context.new_page()\<close>, \<open>goto\<close>, waits and
    scrolls; in the single-product flow the tab is the page itself and this is not
    consulted), \<open>product_found n\<close> (\<open>extractor.extract_product_data\<close>),
    \<open>variants_found n\<close> (\<open>extractor.extract_variants\<close>), \<open>tab_closes n\<close>
    (\<open>new_tab.close()\<close>);
  \<^item> \<open>append_fails a\<close>: whether append \<open>a\<close> to a CSV file fails, by \<open>open\<close> or by
    \<open>writerow\<close> raising \<open>OSError\<close>; a failed append leaves no row.
\<close>

record world =
  browser_starts :: "exn option"
  browser_closes :: "exn option"
  links_found :: "nat \<Rightarrow> exn + pystr list"
  next_page_result :: "nat \<Rightarrow> exn + bool"
  page_settles :: "nat \<Rightarrow> exn option"
  tab_opens :: "nat \<Rightarrow> exn option"
  product_found :: "nat \<Rightarrow> exn + product_data"
  variants_found :: "nat \<Rightarrow> exn + variant_data list"
  tab_closes :: "nat \<Rightarrow> exn option"
  append_fails :: "nat \<Rightarrow> bool"

text \<open>
  A function that may raise returns the exception, if any, together with the state it
  leaves behind.
\<close>

definition save_product_to_csv ::
    "world \<Rightarrow> product_data \<Rightarrow> pystr \<Rightarrow> session \<Rightarrow> exn option \<times> session" where
  "save_product_to_csv world product_data is_whitelisted st =
     (if append_fails world (appends st)
      then (Some OSError, st\<lparr>appends := Suc (appends st)\<rparr>)
      else (None, st\<lparr>products_csv := products_csv st @ [product_row product_data is_whitelisted],
                      appends := Suc (appends st)\<rparr>))"

definition save_variant_to_csv ::
    "world \<Rightarrow> variant_data \<Rightarrow> pystr \<Rightarrow> session \<Rightarrow> exn option \<times> session" where
  "save_variant_to_csv world variant_data is_whitelisted st =
     (if append_fails world (appends st)
      then (Some OSError, st\<lparr>appends := Suc (appends st)\<rparr>)
      else (None, st\<lparr>variants_csv := variants_csv st @ [variant_row variant_data is_whitelisted],
                      appends := Suc (appends st)\<rparr>))"

text \<open>\<open>for variant in variants:\<close> with its body, in both flows.\<close>

fun save_variants ::
    "(pystr \<Rightarrow> pystr) \<Rightarrow> pystr list \<Rightarrow> world \<Rightarrow> variant_data list \<Rightarrow> session
       \<Rightarrow> exn option \<times> session" where
  "save_variants lower whitelisted_sellers world [] st = (None, st)"
| "save_variants lower whitelisted_sellers world (variant # variants) st =
     (let is_whitelisted = check_whitelisted_seller lower whitelisted_sellers
            (seller_name variant) (manufacturer_name variant)
      in case save_variant_to_csv world variant is_whitelisted st of
           (Some e, st) \<Rightarrow> (Some e, st)
         | (None, st) \<Rightarrow>
             save_variants lower whitelisted_sellers world variants
               (st\<lparr>total_variants := total_variants st + 1\<rparr>))"

text \<open>
  The statements from "Extract product data" to the end of the variant loop, which are
  the same in \<open>scrape_platform_products_with_browser\<close> (lines 448 to 473) and in
  \<open>scrape_single_product\<close> (lines 566 to 591), for product tab \<open>n\<close>. The message printed
  after a product is saved slices \<open>product_data.get('title', 'Unknown')\<close>, which raises
  \<open>TypeError\<close> when the title is \<open>None\<close>.
\<close>

definition scrape_product ::
    "(pystr \<Rightarrow> pystr) \<Rightarrow> pystr list \<Rightarrow> world \<Rightarrow> nat \<Rightarrow> session \<Rightarrow> exn option \<times> session" where
  "scrape_product lower whitelisted_sellers world n st =
     (case product_found world n of
        Inl e \<Rightarrow> (Some e, st)
      | Inr product_data \<Rightarrow>
          (let is_whitelisted = check_whitelisted_seller lower whitelisted_sellers
                 (seller_name product_data) (manufacturer_name product_data);
               saved =
                 (if truthy (title product_data) \<or> truthy (price product_data) then
                    (case save_product_to_csv world product_data is_whitelisted st of
                       (Some e, st) \<Rightarrow> (Some e, st)
                     | (None, st) \<Rightarrow>
                         (if title product_data = None then Some TypeError else None,
                          st\<lparr>total_products := total_products st + 1\<rparr>))
                  else (None, st))
           in case saved of
                (Some e, st) \<Rightarrow> (Some e, st)
              | (None, st) \<Rightarrow>
                  (case variants_found world n of
                     Inl e \<Rightarrow> (Some e, st)
                   | Inr variants \<Rightarrow>
                       save_variants lower whitelisted_sellers world variants st)))"

text \<open>
  \<open>scrape_single_product\<close>: the handler prints and re-raises, so the exception is the
  result.
\<close>

definition scrape_single_product ::
    "(pystr \<Rightarrow> pystr) \<Rightarrow> pystr list \<Rightarrow> world \<Rightarrow> exn option \<times> session" where
  "scrape_single_product lower whitelisted_sellers world =
     (case browser_starts world of
        Some e \<Rightarrow> (Some e, new_session)
      | None \<Rightarrow>
          (case scrape_product lower whitelisted_sellers world 0 new_session of
             (Some e, st) \<Rightarrow> (Some e, st)
           | (None, st) \<Rightarrow> (browser_closes world, st)))"

text \<open>
  The listing flow. \<open>product_try\<close> is the body of the \<open>try\<close> statement inside the
  \<open>for\<close> loop over the links of a page, for one link. Its handler catches every
  \<open>Exception\<close>, prints it, closes the tab (ignoring a failure of that) and goes on with
  the next link: \<open>process_product\<close>.
\<close>

definition product_try ::
    "(pystr \<Rightarrow> pystr) \<Rightarrow> pystr list \<Rightarrow> world \<Rightarrow> session \<Rightarrow> exn option \<times> session" where
  "product_try lower whitelisted_sellers world st0 =
     (let n = tabs st0;
          st = st0\<lparr>tabs := Suc n\<rparr>
      in case tab_opens world n of
           Some e \<Rightarrow> (Some e, st)
         | None \<Rightarrow>
             (case scrape_product lower whitelisted_sellers world n st of
                (Some e, st) \<Rightarrow> (Some e, st)
              | (None, st) \<Rightarrow> (tab_closes world n, st)))"

definition process_product ::
    "(pystr \<Rightarrow> pystr) \<Rightarrow> pystr list \<Rightarrow> world \<Rightarrow> session \<Rightarrow> session" where
  "process_product lower whitelisted_sellers world st =
     (case product_try lower whitelisted_sellers world st of
        (Some e, st) \<Rightarrow> st
      | (None, st) \<Rightarrow> st)"

text \<open>
  \<open>for i, product_url in enumerate(product_links):\<close>; tab \<open>n\<close> is opened for the
  \<open>n\<close>-th link the run processes.
\<close>

fun process_products ::
    "(pystr \<Rightarrow> pystr) \<Rightarrow> pystr list \<Rightarrow> world \<Rightarrow> pystr list \<Rightarrow> session \<Rightarrow> session" where
  "process_products lower whitelisted_sellers world [] st = st"
| "process_products lower whitelisted_sellers world (link # product_links) st =
     process_products lower whitelisted_sellers world product_links
       (process_product lower whitelisted_sellers world st)"

text \<open>
  One pass through the body of \<open>while max_pages == 0 or current_page <= max_pages\<close>: it
  ends the loop (\<open>Inl\<close>: by \<open>break\<close> with no exception, or by an exception) or goes on to
  the next test of the loop condition (\<open>Inr\<close>).
\<close>

definition page_step ::
    "(pystr \<Rightarrow> pystr) \<Rightarrow> pystr list \<Rightarrow> world \<Rightarrow> int \<Rightarrow> session
       \<Rightarrow> (exn option \<times> session) + session" where
  "page_step lower whitelisted_sellers world max_pages st0 =
     (let st = st0\<lparr>link_calls := Suc (link_calls st0)\<rparr>
      in case links_found world (link_calls st0) of
           Inl e \<Rightarrow> Inl (Some e, st)
         | Inr product_links \<Rightarrow>
             (if product_links = [] then Inl (None, st)
              else
                (let st = process_products lower whitelisted_sellers world product_links st
                 in if max_pages = 0 \<or> current_page st < max_pages then
                      (let k = next_calls st;
                           st = st\<lparr>next_calls := Suc k\<rparr>
                       in case next_page_result world k of
                            Inl e \<Rightarrow> Inl (Some e, st)
                          | Inr next_page_success \<Rightarrow>
                              (if \<not> next_page_success then Inl (None, st)
                               else
                                 (let st = st\<lparr>current_page := current_page st + 1\<rparr>
                                  in case page_settles world k of
                                       Some e \<Rightarrow> Inl (Some e, st)
                                     | None \<Rightarrow> Inr st)))
                    else Inl (None, st))))"

text \<open>
  The \<open>while\<close> loop. It need not end (\<open>max_pages = 0\<close>, a next page every time), so its
  result is optional: \<open>None\<close> when it runs forever.
\<close>

partial_function (option) paged_loop ::
    "(pystr \<Rightarrow> pystr) \<Rightarrow> pystr list \<Rightarrow> world \<Rightarrow> int \<Rightarrow> session
       \<Rightarrow> (exn option \<times> session) option" where
  "paged_loop lower whitelisted_sellers world max_pages st =
     (if max_pages = 0 \<or> current_page st \<le> max_pages then
        (case page_step lower whitelisted_sellers world max_pages st of
           Inl r \<Rightarrow> Some r
         | Inr st \<Rightarrow> paged_loop lower whitelisted_sellers world max_pages st)
      else Some (None, st))"

text \<open>
  \<open>scrape_platform_products_with_browser\<close>: start the browser, run the loop, close the
  browser; the handler prints and re-raises.
\<close>

definition scrape_platform_products_with_browser ::
    "(pystr \<Rightarrow> pystr) \<Rightarrow> pystr list \<Rightarrow> world \<Rightarrow> int \<Rightarrow> (exn option \<times> session) option" where
  "scrape_platform_products_with_browser lower whitelisted_sellers world max_pages =
     (case browser_starts world of
        Some e \<Rightarrow> Some (Some e, new_session)
      | None \<Rightarrow>
          (case paged_loop lower whitelisted_sellers world max_pages new_session of
             None \<Rightarrow> None
           | Some (Some e, st) \<Rightarrow> Some (Some e, st)
           | Some (None, st) \<Rightarrow> Some (browser_closes world, st)))"

text \<open>
  Two example runs. In \<open>three_page_world\<close> every listing page shows one link, no
  product tab can be opened, and \<open>go_to_next_page\<close> succeeds twice and then returns
  false; in \<open>endless_world\<close> it succeeds every time.
\<close>

definition three_page_world :: world where
  "three_page_world =
     \<lparr> browser_starts = None, browser_closes = None,
       links_found = (\<lambda>k. Inr [ustr ''https://www.amazon.in/dp/B0EXAMPLE1'']),
       next_page_result = (\<lambda>k. Inr (k < 2)),
       page_settles = (\<lambda>k. None),
       tab_opens = (\<lambda>n. Some PageError),
       product_found = (\<lambda>n. Inl PageError),
       variants_found = (\<lambda>n. Inr []),
       tab_closes = (\<lambda>n. None),
       append_fails = (\<lambda>a. False) \<rparr>"

definition endless_world :: world where
  "endless_world = three_page_world\<lparr>next_page_result := (\<lambda>k. Inr True)\<rparr>"

section \<open>Facts about strings\<close>

lemma py_in_iff: "py_in sub s \<longleftrightarrow> (\<exists>ps ss. s = ps @ sub @ ss)"
proof (induction s)
  case Nil
  then show ?case by auto
next
  case (Cons c cs)
  show ?case
  proof
    assume "py_in sub (c # cs)"
    then consider "prefix sub (c # cs)" | "py_in sub cs" by auto
    then show "\<exists>ps ss. c # cs = ps @ sub @ ss"
    proof cases
      case 1
      then obtain ss where "c # cs = sub @ ss" by (auto simp: prefix_def)
      then have "c # cs = [] @ sub @ ss" by simp
      then show ?thesis by blast
    next
      case 2
      then obtain ps ss where "cs = ps @ sub @ ss" using Cons.IH by blast
      then have "c # cs = (c # ps) @ sub @ ss" by simp
      then show ?thesis by blast
    qed
  next
    assume "\<exists>ps ss. c # cs = ps @ sub @ ss"
    then obtain ps ss where eq: "c # cs = ps @ sub @ ss" by blast
    show "py_in sub (c # cs)"
    proof (cases ps)
      case Nil
      then have "prefix sub (c # cs)" using eq by (simp add: prefix_def)
      then show ?thesis by simp
    next
      case (Cons p ps')
      then have "cs = ps' @ sub @ ss" using eq by simp
      then have "py_in sub cs" using Cons.IH by blast
      then show ?thesis by simp
    qed
  qed
qed

lemma py_in_refl: "py_in s s"
proof -
  have "s = [] @ s @ []" by simp
  then show ?thesis unfolding py_in_iff by blast
qed

lemma ustr_Whitelisted_neq_False: "ustr ''Whitelisted'' \<noteq> ustr ''False''"
  by (simp add: ustr_def)

lemma py_strip_Nil: "py_strip [] = []" by (simp add: py_strip_def)

lemma matches_whitelisted_iff:
  "matches_whitelisted lower name L \<longleftrightarrow>
     (\<exists>w\<in>set L. py_in (lower w) (lower name) \<or> py_in (lower name) (lower w))"
  by (induction L) (auto simp: py_in_refl)

lemma check_names_cases:
  "check_names lower ns L = ustr ''Whitelisted'' \<or> check_names lower ns L = ustr ''False''"
  by (induction ns) simp_all

lemma check_names_iff:
  "check_names lower ns L = ustr ''Whitelisted'' \<longleftrightarrow>
     (\<exists>n\<in>set ns. n \<noteq> [] \<and> matches_whitelisted lower n L)"
proof (induction ns)
  case Nil
  show ?case using ustr_Whitelisted_neq_False by (simp del: ustr_def)
next
  case (Cons n ns)
  then show ?case by (simp del: ustr_def)
qed

lemma names_to_check_nonempty:
  "(\<exists>n\<in>set (names_to_check (Some s) (Some m)). n \<noteq> [] \<and> P n) \<longleftrightarrow>
     (\<exists>x\<in>{s, m}. py_strip x \<noteq> [] \<and> P (py_strip x))"
proof -
  have "set (names_to_check (Some s) (Some m)) =
        (if s \<noteq> [] then {py_strip s} else {}) \<union> (if m \<noteq> [] then {py_strip m} else {})"
    by (simp add: names_to_check_def)
  moreover have "s = [] \<Longrightarrow> py_strip s = []" and "m = [] \<Longrightarrow> py_strip m = []"
    by (simp_all add: py_strip_Nil)
  ultimately show ?thesis by (cases "s = []"; cases "m = []") auto
qed

lemma py_strip_idem: "py_strip (py_strip s) = py_strip s"
proof -
  define a where "a = dropWhile py_isspace s"
  define t where "t = rev (dropWhile py_isspace (rev a))"
  have a_split: "a = t @ rev (takeWhile py_isspace (rev a))"
  proof -
    have "rev (takeWhile py_isspace (rev a) @ dropWhile py_isspace (rev a)) = rev (rev a)"
      by (simp only: takeWhile_dropWhile_id)
    then have "rev (dropWhile py_isspace (rev a)) @ rev (takeWhile py_isspace (rev a)) = a"
      by (simp only: rev_append rev_rev_ident)
    then show ?thesis unfolding t_def by simp
  qed
  have front: "dropWhile py_isspace t = t"
  proof (cases t)
    case Nil
    then show ?thesis by simp
  next
    case (Cons x xs)
    obtain r where "a = (x # xs) @ r" using a_split Cons by blast
    then have "a \<noteq> []" and "hd a = x" by simp_all
    then have "\<not> py_isspace x" unfolding a_def using hd_dropWhile by metis
    then show ?thesis using Cons by simp
  qed
  have rear: "dropWhile py_isspace (rev t) = rev t"
    unfolding t_def by simp
  have "py_strip s = t" unfolding py_strip_def t_def a_def by simp
  moreover have "py_strip t = t" unfolding py_strip_def front rear by simp
  ultimately show ?thesis by simp
qed

lemma load_whitelisted_sellers_trimmed:
  "\<forall>w\<in>set (load_whitelisted_sellers raw). py_strip w = w \<and> w \<noteq> []"
  by (auto simp: load_whitelisted_sellers_def py_strip_idem)

section \<open>C4: the whitelist classifier\<close>

text \<open>
  Claim C4, as the code has it. For every seller name \<open>s\<close>, manufacturer name \<open>m\<close> and
  allow-list \<open>L\<close> whose entries are trimmed (as \<open>load_whitelisted_sellers\<close> leaves them,
  see \<open>load_whitelisted_sellers_trimmed\<close>): \<open>check_whitelisted_seller\<close> returns
  \<open>"Whitelisted"\<close> if and only if some name among \<open>s\<close> and \<open>m\<close> that is non-empty
  \<^emph>\<open>after trimming\<close> and some entry of \<open>L\<close> have, after lower-casing with
  \<open>str.lower\<close> and trimming, one string containing the other; otherwise it returns
  \<open>"False"\<close>, and the empty allow-list always yields \<open>"False"\<close>.
\<close>

theorem check_whitelisted_seller_iff:
  assumes "\<forall>w\<in>set L. py_strip w = w"
  shows "(check_whitelisted_seller lower L (Some s) (Some m) = ustr ''Whitelisted'' \<longleftrightarrow>
            (\<exists>n\<in>{s, m}. \<exists>w\<in>set L. py_strip n \<noteq> [] \<and>
               (py_in (lower (py_strip w)) (lower (py_strip n))
                \<or> py_in (lower (py_strip n)) (lower (py_strip w)))))
       \<and> (check_whitelisted_seller lower L (Some s) (Some m) \<noteq> ustr ''Whitelisted'' \<longrightarrow>
            check_whitelisted_seller lower L (Some s) (Some m) = ustr ''False'')
       \<and> check_whitelisted_seller lower [] (Some s) (Some m) = ustr ''False''"
proof (intro conjI)
  have "check_whitelisted_seller lower L (Some s) (Some m) = ustr ''Whitelisted'' \<longleftrightarrow>
        (\<exists>x\<in>{s, m}. py_strip x \<noteq> [] \<and> matches_whitelisted lower (py_strip x) L)"
  proof (cases "L = []")
    case True
    then show ?thesis
      by (simp add: check_whitelisted_seller_def ustr_Whitelisted_neq_False[symmetric])
  next
    case False
    then show ?thesis
      using names_to_check_nonempty [of s m "\<lambda>n. matches_whitelisted lower n L"]
      by (simp add: check_whitelisted_seller_def check_names_iff)
  qed
  also have "\<dots> \<longleftrightarrow> (\<exists>n\<in>{s, m}. \<exists>w\<in>set L. py_strip n \<noteq> [] \<and>
               (py_in (lower (py_strip w)) (lower (py_strip n))
                \<or> py_in (lower (py_strip n)) (lower (py_strip w))))"
    using assms unfolding matches_whitelisted_iff by auto
  finally show "check_whitelisted_seller lower L (Some s) (Some m) = ustr ''Whitelisted'' \<longleftrightarrow>
            (\<exists>n\<in>{s, m}. \<exists>w\<in>set L. py_strip n \<noteq> [] \<and>
               (py_in (lower (py_strip w)) (lower (py_strip n))
                \<or> py_in (lower (py_strip n)) (lower (py_strip w))))" .
next
  show "check_whitelisted_seller lower L (Some s) (Some m) \<noteq> ustr ''Whitelisted'' \<longrightarrow>
            check_whitelisted_seller lower L (Some s) (Some m) = ustr ''False''"
    using check_names_cases by (auto simp: check_whitelisted_seller_def)
next
  show "check_whitelisted_seller lower [] (Some s) (Some m) = ustr ''False''"
    by (simp add: check_whitelisted_seller_def)
qed

theorem check_whitelisted_seller_iff_witness:
  "check_whitelisted_seller ascii_lower [ustr ''Acme Corp''] (Some (ustr '' ACME '')) (Some [])
     = ustr ''Whitelisted''"
proof -
  have h: "\<forall>w\<in>set [ustr ''Acme Corp'']. py_strip w = w"
    by (simp add: ustr_def py_strip_def py_isspace_def)
  have r: "\<exists>n\<in>{ustr '' ACME '', []}. \<exists>w\<in>set [ustr ''Acme Corp'']. py_strip n \<noteq> [] \<and>
               (py_in (ascii_lower (py_strip w)) (ascii_lower (py_strip n))
                \<or> py_in (ascii_lower (py_strip n)) (ascii_lower (py_strip w)))"
    by (simp add: ustr_def py_strip_def py_isspace_def ascii_lower_def)
  from check_whitelisted_seller_iff [OF h, of ascii_lower "ustr '' ACME ''" "[]"] r
  show ?thesis by blast
qed

text \<open>
  The claim as it is written asks only that the name be non-empty. A seller name of two
  blanks is non-empty, its trimmed form is the empty string, and the empty string is
  contained in every allow-list entry; yet the code skips the name (\<open>if not name: continue\<close>
  after \<open>strip()\<close>) and answers \<open>"False"\<close>.
\<close>

theorem check_whitelisted_seller_blank_name_counterexample:
  "check_whitelisted_seller ascii_lower [ustr ''acme''] (Some (ustr ''  '')) (Some [])
     = ustr ''False''
   \<and> ustr ''  '' \<noteq> []
   \<and> py_strip (ustr ''acme'') = ustr ''acme''
   \<and> py_in (ascii_lower (py_strip (ustr ''  ''))) (ascii_lower (py_strip (ustr ''acme'')))"
  by (simp add: check_whitelisted_seller_def names_to_check_def ustr_def py_strip_def
      py_isspace_def ascii_lower_def)

section \<open>C9: the field resolver\<close>

lemma first_text_find:
  "first_text page sels =
     (case find (\<lambda>sel. selector_result page sel \<noteq> None) sels of
        None \<Rightarrow> None | Some sel \<Rightarrow> selector_result page sel)"
  by (induction sels) (auto simp: selector_result_def Let_def split: sum.splits option.splits)

lemma text_by_xpath_find:
  "text_by_xpath page xps =
     (case find (\<lambda>xp. selector_result page (''xpath='' @ xp) \<noteq> None) xps of
        None \<Rightarrow> None | Some xp \<Rightarrow> selector_result page (''xpath='' @ xp))"
  by (induction xps) (auto simp: selector_result_def Let_def split: sum.splits option.splits)

lemma split_ws_words_nonempty: "w \<in> set (split_ws cur s) \<Longrightarrow> w \<noteq> []"
  by (induction s arbitrary: cur) (auto split: if_splits)

lemma split_ws_nonempty:
  "cur \<noteq> [] \<or> (\<exists>c\<in>set s. \<not> py_isspace c) \<Longrightarrow> split_ws cur s \<noteq> []"
  by (induction s arbitrary: cur) auto

lemma py_join_nonempty: "ws \<noteq> [] \<Longrightarrow> hd ws \<noteq> [] \<Longrightarrow> py_join sep ws \<noteq> []"
  by (induction sep ws rule: py_join.induct) auto

lemma dropWhile_nonempty_ex: "dropWhile P s \<noteq> [] \<Longrightarrow> \<exists>c\<in>set s. \<not> P c"
  by (induction s) (auto split: if_splits)

lemma normalized_nonempty:
  assumes "py_strip raw \<noteq> []"
  shows "py_join sep (py_split (py_strip raw)) \<noteq> []"
proof -
  let ?t = "py_strip raw"
  define d where "d = dropWhile py_isspace (rev (dropWhile py_isspace raw))"
  have t: "?t = rev d" by (simp add: py_strip_def d_def)
  then have dne: "d \<noteq> []" using assms by simp
  then have "\<not> py_isspace (hd d)" unfolding d_def by (rule hd_dropWhile)
  moreover have "hd d \<in> set ?t" using dne t by simp
  ultimately have "\<exists>c\<in>set ?t. \<not> py_isspace c" by blast
  then have ne: "py_split ?t \<noteq> []" unfolding py_split_def using split_ws_nonempty by blast
  then have "hd (py_split ?t) \<in> set (py_split ?t)" by simp
  then have "hd (py_split ?t) \<noteq> []" unfolding py_split_def using split_ws_words_nonempty by blast
  with ne show ?thesis using py_join_nonempty by blast
qed

text \<open>
  Claim C9. \<open>first_text\<close> and \<open>text_by_xpath\<close> try their selectors in the declared
  order and return the whitespace-normalized text of the first selector that yields
  non-empty text; a selector that raises counts as no result; the resolver returns
  \<open>None\<close> only when every selector of the list failed or yielded empty text. The text
  returned is never empty.
\<close>

theorem field_resolver_first_nonempty:
  "first_text page sels =
     (case find (\<lambda>sel. selector_result page sel \<noteq> None) sels of
        None \<Rightarrow> None | Some sel \<Rightarrow> selector_result page sel)
   \<and> text_by_xpath page xps =
     (case find (\<lambda>xp. selector_result page (''xpath='' @ xp) \<noteq> None) xps of
        None \<Rightarrow> None | Some xp \<Rightarrow> selector_result page (''xpath='' @ xp))
   \<and> (first_text page sels = None \<longleftrightarrow> (\<forall>sel\<in>set sels. selector_result page sel = None))
   \<and> (text_by_xpath page xps = None \<longleftrightarrow>
        (\<forall>xp\<in>set xps. selector_result page (''xpath='' @ xp) = None))
   \<and> (inner_text page sel = Inl e \<longrightarrow>
        selector_result page sel = None
        \<and> first_text page (sel # sels) = first_text page sels)
   \<and> (selector_result page sel = Some r \<longrightarrow> r \<noteq> [])"
proof (intro conjI)
  show "first_text page sels =
     (case find (\<lambda>sel. selector_result page sel \<noteq> None) sels of
        None \<Rightarrow> None | Some sel \<Rightarrow> selector_result page sel)"
    by (rule first_text_find)
  show "text_by_xpath page xps =
     (case find (\<lambda>xp. selector_result page (''xpath='' @ xp) \<noteq> None) xps of
        None \<Rightarrow> None | Some xp \<Rightarrow> selector_result page (''xpath='' @ xp))"
    by (rule text_by_xpath_find)
  show "first_text page sels = None \<longleftrightarrow> (\<forall>sel\<in>set sels. selector_result page sel = None)"
    unfolding first_text_find
    by (auto simp: find_None_iff split: option.splits dest: find_Some_iff[THEN iffD1])
  show "text_by_xpath page xps = None \<longleftrightarrow>
        (\<forall>xp\<in>set xps. selector_result page (''xpath='' @ xp) = None)"
    unfolding text_by_xpath_find
    by (auto simp: find_None_iff split: option.splits dest: find_Some_iff[THEN iffD1])
  show "inner_text page sel = Inl e \<longrightarrow>
        selector_result page sel = None
        \<and> first_text page (sel # sels) = first_text page sels"
    by (simp add: selector_result_def)
  show "selector_result page sel = Some r \<longrightarrow> r \<noteq> []"
    by (auto simp: selector_result_def normalized_nonempty split: sum.splits option.splits if_splits)
qed

theorem field_resolver_first_nonempty_witness:
  "inner_text example_page ''h1.title'' = Inl PageError
   \<and> first_text example_page [''h1.title'', ''h1'', ''.product-title'', ''h2'']
       = Some (ustr ''Widget Pro'')"
proof -
  let ?sels = "[''h1.title'', ''h1'', ''.product-title'', ''h2'']"
  have e: "inner_text example_page ''h1.title'' = Inl PageError"
    by (simp add: example_page_def)
  have r1: "selector_result example_page ''h1.title'' = None"
    using field_resolver_first_nonempty [of example_page ?sels "[]" "''h1.title''" PageError] e
    by blast
  have r2: "selector_result example_page ''h1'' = None"
    by (simp add: selector_result_def example_page_def ustr_def py_strip_def py_isspace_def)
  have r3: "selector_result example_page ''.product-title'' = Some (ustr ''Widget Pro'')"
    by (simp add: selector_result_def example_page_def ustr_def py_strip_def py_isspace_def
        py_split_def)
  have "first_text example_page ?sels =
     (case find (\<lambda>sel. selector_result example_page sel \<noteq> None) ?sels of
        None \<Rightarrow> None | Some sel \<Rightarrow> selector_result example_page sel)"
    using field_resolver_first_nonempty [of example_page ?sels "[]" "''h1.title''" PageError]
    by blast
  then have "first_text example_page ?sels = Some (ustr ''Widget Pro'')"
    by (simp add: r1 r2 r3)
  with e show ?thesis by blast
qed

section \<open>C10: the Amazon price after cleaning\<close>













section \<open>C8: the fields of a product record\<close>

text \<open>
  \<open>extract_common_data\<close> and the Amazon extractor put \<open>x or ""\<close> into every field, so
  their records hold strings only.
\<close>

lemma all_strings_common: "all_strings (extract_common_data page)"
  by (simp add: all_strings_def extract_common_data_def Let_def)

lemma all_strings_amazon_steps:
  "all_strings c \<Longrightarrow> all_strings (amazon_price isdecimal c)"
  "all_strings c \<Longrightarrow> all_strings (amazon_out_of_stock lower page c)"
  "all_strings c \<Longrightarrow> all_strings (amazon_seller page c)"
  "all_strings c \<Longrightarrow> all_strings (amazon_manufacturer page c)"
  "all_strings c \<Longrightarrow> all_strings (amazon_image page c)"
  by (simp_all add: all_strings_def amazon_price_def amazon_out_of_stock_def amazon_seller_def
      amazon_manufacturer_def amazon_image_def Let_def
      del: first_text.simps text_by_xpath.simps)

lemma all_strings_amazon:
  "all_strings (amazon_extract_product_data isdecimal lower page)
   \<and> product_url (amazon_extract_product_data isdecimal lower page) \<noteq> None"
proof -
  let ?c = "amazon_image page (amazon_manufacturer page (amazon_seller page
             (amazon_out_of_stock lower page (amazon_price isdecimal (extract_common_data page)))))"
  have "all_strings ?c"
    by (intro all_strings_amazon_steps all_strings_common)
  then show ?thesis
    by (simp add: amazon_extract_product_data_def Let_def all_strings_def
        common_data.defs product_data.defs)
qed

text \<open>The Generic extractor on the page with a heading only.\<close>

lemma heading_first_text_h1:
  "first_text heading_only_page (''h1'' # sels) = Some (ustr ''Widget'')"
  by (simp add: heading_only_page_def ustr_def py_strip_def py_isspace_def py_split_def)

lemma heading_first_text_none:
  "''h1'' \<notin> set sels \<Longrightarrow> first_text heading_only_page sels = None"
  by (induction sels) (auto simp: heading_only_page_def)

lemma heading_text_by_xpath_none:
  "text_by_xpath heading_only_page xps = None"
  by (induction xps) (auto simp: heading_only_page_def)

lemma heading_image_none: "get_image_url heading_only_page sels b = None"
proof -
  have "image_from_selectors heading_only_page sels = None"
    by (induction sels) (auto simp: heading_only_page_def)
  then show ?thesis
    by (simp add: get_image_url_def heading_only_page_def valid_image_url_def)
qed

lemma generic_heading_only:
  "generic_extract_product_data heading_only_page =
     \<lparr> title = Some (ustr ''Widget''), price = None, seller_name = None,
       manufacturer_name = None, image_url = None,
       product_url = Some (ustr ''https://shop.example/item/42'') \<rparr>"
proof -
  have t: "generic_title heading_only_page = Some (ustr ''Widget'')"
    unfolding generic_title_def heading_first_text_h1 by (simp add: ustr_def)
  have p: "generic_price heading_only_page = None"
    unfolding generic_price_def by (simp add: heading_first_text_none heading_text_by_xpath_none del: first_text.simps text_by_xpath.simps)
  have s: "generic_seller heading_only_page = None"
    unfolding generic_seller_def by (simp add: heading_first_text_none heading_text_by_xpath_none del: first_text.simps text_by_xpath.simps)
  have m: "generic_manufacturer heading_only_page None = None"
    unfolding generic_manufacturer_def by (simp add: heading_first_text_none heading_text_by_xpath_none del: first_text.simps text_by_xpath.simps)
  show ?thesis
    unfolding generic_extract_product_data_def t p s
    by (simp add: m heading_image_none, simp add: heading_only_page_def)
qed

text \<open>
  Claim C8 says that every field of the record returned by \<open>extract_product_data\<close> is a
  string, for every extractor. The Generic extractor returns what its resolvers return:
  on a page where no price, seller, manufacturer or image selector matches, these four
  fields are \<open>None\<close>.
\<close>

theorem generic_extract_product_data_returns_None:
  "price (generic_extract_product_data heading_only_page) = None
   \<and> seller_name (generic_extract_product_data heading_only_page) = None
   \<and> manufacturer_name (generic_extract_product_data heading_only_page) = None
   \<and> image_url (generic_extract_product_data heading_only_page) = None
   \<and> title (generic_extract_product_data heading_only_page) = Some (ustr ''Widget'')"
  by (simp add: generic_heading_only)

section \<open>C1: instantiating the registered extractors\<close>

lemma missing_methods_Amazon: "missing_methods AmazonExtractor = []"
  by (simp add: missing_methods_def abstract_methods_def)

lemma missing_methods_Generic:
  "missing_methods GenericExtractor = [Go_to_next_page, Extract_variants]"
  by (simp add: missing_methods_def abstract_methods_def)

lemma missing_methods_other:
  "c \<noteq> AmazonExtractor \<Longrightarrow> missing_methods c = [Go_to_next_page, Extract_variants]"
  by (cases c) (simp_all add: missing_methods_def abstract_methods_def)

lemma instantiate_iff: "(\<exists>obj. instantiate c = Inr obj) \<longleftrightarrow> c = AmazonExtractor"
proof (cases "c = AmazonExtractor")
  case True
  then show ?thesis by (simp add: instantiate_def missing_methods_Amazon)
next
  case False
  then show ?thesis by (simp add: instantiate_def missing_methods_other)
qed

lemma get_extractor_generic: "get_extractor ''generic'' = GenericExtractor"
  by (simp add: get_extractor_def PLATFORM_EXTRACTORS_def)

text \<open>
  C1. The claim holds for the key \<open>amazon\<close> only. For the key \<open>generic\<close>, and for a
  key that is not in the registry, \<open>get_extractor\<close> returns \<open>GenericExtractor\<close>, which
  leaves \<open>go_to_next_page\<close> and \<open>extract_variants\<close> abstract, so constructing it raises
  \<open>TypeError\<close>. Of the fourteen registered keys the only one whose class can be
  constructed is \<open>amazon\<close>.
\<close>

theorem generic_extractor_not_instantiable:
  "instantiate (get_extractor ''generic'') = Inl TypeError
   \<and> missing_methods (get_extractor ''generic'') = [Go_to_next_page, Extract_variants]
   \<and> instantiate (get_extractor ''amazon'') = Inr AmazonExtractor
   \<and> filter (\<lambda>key. isl (instantiate (get_extractor key))) (map fst PLATFORM_EXTRACTORS)
       = [''flipkart'', ''myntra'', ''meesho'', ''ajio'', ''ebay'', ''redbubble'',
          ''snapdeal'', ''shopsy'', ''nykaa'', ''tatacliq'', ''indiamart'', ''walmart'',
          ''generic'']"
  by code_simp

section \<open>Facts about the session\<close>

text \<open>Processing products leaves the page counters alone.\<close>

lemma save_product_paging:
  "save_product_to_csv world d w st = (e, st') \<Longrightarrow>
     current_page st' = current_page st \<and> next_calls st' = next_calls st
     \<and> link_calls st' = link_calls st"
  by (auto simp add: save_product_to_csv_def split: if_splits)

lemma save_variant_paging:
  "save_variant_to_csv world v w st = (e, st') \<Longrightarrow>
     current_page st' = current_page st \<and> next_calls st' = next_calls st
     \<and> link_calls st' = link_calls st"
  by (auto simp add: save_variant_to_csv_def split: if_splits)

lemma save_variants_paging:
  "save_variants lower L world vs st = (e, st') \<Longrightarrow>
     current_page st' = current_page st \<and> next_calls st' = next_calls st
     \<and> link_calls st' = link_calls st"
proof (induction vs arbitrary: st)
  case Nil
  then show ?case by simp
next
  case (Cons v vs)
  obtain e1 st1 where s: "save_variant_to_csv world v
      (check_whitelisted_seller lower L (seller_name v) (manufacturer_name v)) st = (e1, st1)"
    by (cases "save_variant_to_csv world v
      (check_whitelisted_seller lower L (seller_name v) (manufacturer_name v)) st")
  note p = save_variant_paging [OF s]
  show ?case
  proof (cases e1)
    case None
    with Cons.prems s
    have "save_variants lower L world vs (st1\<lparr>total_variants := total_variants st1 + 1\<rparr>)
            = (e, st')"
      by simp
    from Cons.IH [OF this] p show ?thesis by simp
  next
    case (Some a)
    with Cons.prems s have "st' = st1" by simp
    with p show ?thesis by simp
  qed
qed

lemma scrape_product_paging:
  "scrape_product lower L world n st = (e, st') \<Longrightarrow>
     current_page st' = current_page st \<and> next_calls st' = next_calls st
     \<and> link_calls st' = link_calls st"
  unfolding scrape_product_def Let_def
  by (auto split: sum.splits if_splits prod.splits option.splits
        dest!: save_product_paging save_variants_paging)

lemma product_try_paging:
  "product_try lower L world st = (e, st') \<Longrightarrow>
     current_page st' = current_page st \<and> next_calls st' = next_calls st
     \<and> link_calls st' = link_calls st"
  unfolding product_try_def Let_def
  by (auto split: option.splits prod.splits dest!: scrape_product_paging)

lemma process_product_paging:
  "current_page (process_product lower L world st) = current_page st
   \<and> next_calls (process_product lower L world st) = next_calls st
   \<and> link_calls (process_product lower L world st) = link_calls st"
proof -
  obtain e st' where t: "product_try lower L world st = (e, st')"
    by (cases "product_try lower L world st")
  from product_try_paging [OF t] t show ?thesis
    by (cases e) (simp_all add: process_product_def)
qed

lemma process_products_paging:
  "current_page (process_products lower L world links st) = current_page st
   \<and> next_calls (process_products lower L world links st) = next_calls st
   \<and> link_calls (process_products lower L world links st) = link_calls st"
  by (induction links arbitrary: st) (simp_all add: process_product_paging)

text \<open>One pass through the loop body.\<close>

lemma page_step_break:
  "page_step lower L world max_pages st = Inl (e, st') \<Longrightarrow>
     next_calls st' \<le> Suc (next_calls st)
     \<and> (next_calls st' = Suc (next_calls st) \<longrightarrow> max_pages = 0 \<or> current_page st < max_pages)"
  unfolding page_step_def Let_def
  by (auto simp add: process_products_paging split: sum.splits if_splits option.splits)

lemma page_step_continue:
  "page_step lower L world max_pages st = Inr st' \<Longrightarrow>
     next_calls st' = Suc (next_calls st) \<and> current_page st' = current_page st + 1
     \<and> link_calls st' = Suc (link_calls st)
     \<and> (max_pages = 0 \<or> current_page st < max_pages)"
  unfolding page_step_def Let_def
  by (auto simp add: process_products_paging split: sum.splits if_splits option.splits)

lemma page_step_advance:
  assumes "links_found world (link_calls st) = Inr ls" and "ls \<noteq> []"
    and "next_page_result world (next_calls st) = Inr True"
    and "page_settles world (next_calls st) = None"
  shows "\<exists>st'. page_step lower L world 0 st = Inr st'
           \<and> next_calls st' = Suc (next_calls st) \<and> link_calls st' = Suc (link_calls st)"
  using assms unfolding page_step_def Let_def
  by (simp add: process_products_paging)

lemma page_step_last:
  assumes "links_found world (link_calls st) = Inr ls" and "ls \<noteq> []"
    and "next_page_result world (next_calls st) = Inr False"
  shows "\<exists>st'. page_step lower L world 0 st = Inl (None, st')
           \<and> next_calls st' = Suc (next_calls st) \<and> link_calls st' = Suc (link_calls st)"
  using assms unfolding page_step_def Let_def
  by (simp add: process_products_paging)

text \<open>With a positive \<open>max_pages\<close> the loop ends, and it bounds the calls.\<close>

lemma paged_loop_bounded:
  assumes "0 < N"
  shows "\<exists>e st'. paged_loop lower L world N st = Some (e, st')
           \<and> int (next_calls st') \<le> int (next_calls st) + max 0 (N - current_page st)"
proof (induction "nat (N + 1 - current_page st)" arbitrary: st rule: less_induct)
  case less
  show ?case
  proof (cases "current_page st \<le> N")
    case False
    with assms have "paged_loop lower L world N st = Some (None, st)"
      by (subst paged_loop.simps) simp
    then show ?thesis by simp
  next
    case True
    show ?thesis
    proof (cases "page_step lower L world N st")
      case (Inl r)
      obtain e st' where r: "r = (e, st')" by (cases r)
      from True Inl r have res: "paged_loop lower L world N st = Some (e, st')"
        by (subst paged_loop.simps) simp
      from page_step_break [OF Inl [unfolded r]] assms
      have "int (next_calls st') \<le> int (next_calls st) + max 0 (N - current_page st)"
        by (cases "next_calls st' = Suc (next_calls st)") auto
      with res show ?thesis by blast
    next
      case (Inr st1)
      note c = page_step_continue [OF Inr]
      from c assms have lt: "current_page st < N" by simp
      from c lt have "nat (N + 1 - current_page st1) < nat (N + 1 - current_page st)"
        by simp
      from less [OF this] obtain e st' where
        r: "paged_loop lower L world N st1 = Some (e, st')"
        and b: "int (next_calls st') \<le> int (next_calls st1) + max 0 (N - current_page st1)"
        by blast
      from True Inr r have res: "paged_loop lower L world N st = Some (e, st')"
        by (subst paged_loop.simps) simp
      from b c lt
      have "int (next_calls st') \<le> int (next_calls st) + max 0 (N - current_page st)"
        by simp
      with res show ?thesis by blast
    qed
  qed
qed

text \<open>
  With \<open>max_pages = 0\<close> the loop goes from page to page until \<open>go_to_next_page\<close>
  returns false for the first time.
\<close>

lemma paged_loop_until_false:
  assumes "\<And>j. j \<le> k \<Longrightarrow> \<exists>ls. links_found world (link_calls st + j) = Inr ls \<and> ls \<noteq> []"
    and "\<And>j. j < k \<Longrightarrow> next_page_result world (next_calls st + j) = Inr True
                         \<and> page_settles world (next_calls st + j) = None"
    and "next_page_result world (next_calls st + k) = Inr False"
  shows "\<exists>st'. paged_loop lower L world 0 st = Some (None, st')
           \<and> next_calls st' = next_calls st + Suc k \<and> link_calls st' = link_calls st + Suc k"
  using assms
proof (induction k arbitrary: st)
  case 0
  from "0.prems"(1) [of 0] obtain ls where
    ls: "links_found world (link_calls st) = Inr ls" "ls \<noteq> []" by auto
  from "0.prems"(3) have "next_page_result world (next_calls st) = Inr False" by simp
  from page_step_last [OF ls this, of lower L] obtain st' where
    s: "page_step lower L world 0 st = Inl (None, st')"
    and c: "next_calls st' = Suc (next_calls st)" "link_calls st' = Suc (link_calls st)"
    by blast
  from s have "paged_loop lower L world 0 st = Some (None, st')"
    by (subst paged_loop.simps) simp
  with c show ?case by simp
next
  case (Suc k)
  from Suc.prems(1) [of 0] obtain ls where
    ls: "links_found world (link_calls st) = Inr ls" "ls \<noteq> []" by auto
  from Suc.prems(2) [of 0] have
    n: "next_page_result world (next_calls st) = Inr True"
       "page_settles world (next_calls st) = None" by auto
  from page_step_advance [OF ls n, of lower L] obtain st1 where
    s: "page_step lower L world 0 st = Inr st1"
    and c: "next_calls st1 = Suc (next_calls st)" "link_calls st1 = Suc (link_calls st)"
    by blast
  have 1: "\<And>j. j \<le> k \<Longrightarrow> \<exists>ls. links_found world (link_calls st1 + j) = Inr ls \<and> ls \<noteq> []"
    using Suc.prems(1) c by (metis Suc_le_mono add_Suc_shift)
  have 2: "\<And>j. j < k \<Longrightarrow> next_page_result world (next_calls st1 + j) = Inr True
                         \<and> page_settles world (next_calls st1 + j) = None"
    using Suc.prems(2) c by (metis Suc_less_eq add_Suc_shift)
  have 3: "next_page_result world (next_calls st1 + k) = Inr False"
    using Suc.prems(3) c by simp
  from Suc.IH [OF 1 2 3] obtain st' where
    r: "paged_loop lower L world 0 st1 = Some (None, st')"
    and d: "next_calls st' = next_calls st1 + Suc k" "link_calls st' = link_calls st1 + Suc k"
    by blast
  from s r have "paged_loop lower L world 0 st = Some (None, st')"
    by (subst paged_loop.simps) simp
  with c d show ?case by simp
qed

text \<open>When \<open>go_to_next_page\<close> never returns false, the loop with \<open>max_pages = 0\<close> never ends.\<close>

lemma paged_loop_endless:
  assumes "\<And>j. (\<exists>ls. links_found world j = Inr ls \<and> ls \<noteq> [])
                \<and> next_page_result world j = Inr True \<and> page_settles world j = None"
  shows "paged_loop lower L world 0 st = None"
proof (rule ccontr)
  assume "paged_loop lower L world 0 st \<noteq> None"
  then obtain y where y: "paged_loop lower L world 0 st = Some y" by auto
  have "world = world \<and> (0::int) = 0 \<longrightarrow> False"
  proof (rule paged_loop.raw_induct
      [where P = "\<lambda>lo Lo w mp s r. w = world \<and> mp = 0 \<longrightarrow> False", OF _ y])
    fix f :: "(pystr \<Rightarrow> pystr) \<Rightarrow> pystr list \<Rightarrow> world \<Rightarrow> int \<Rightarrow> session
                \<Rightarrow> (exn option \<times> session) option"
    fix lo Lo w mp s r
    assume IH: "\<And>lo Lo w mp s r. f lo Lo w mp s = Some r \<Longrightarrow> w = world \<and> mp = 0 \<longrightarrow> False"
    assume b: "(if mp = 0 \<or> current_page s \<le> mp
                then case page_step lo Lo w mp s of Inl r \<Rightarrow> Some r
                     | Inr st \<Rightarrow> f lo Lo w mp st
                else Some (None, s)) = Some r"
    show "w = world \<and> mp = 0 \<longrightarrow> False"
    proof
      assume wm: "w = world \<and> mp = 0"
      from assms [of "link_calls s"] obtain ls where
        ls: "links_found world (link_calls s) = Inr ls" "ls \<noteq> []" by auto
      from assms [of "next_calls s"] have
        n: "next_page_result world (next_calls s) = Inr True"
           "page_settles world (next_calls s) = None" by auto
      from page_step_advance [OF ls n, of lo Lo] obtain s1 where
        "page_step lo Lo world 0 s = Inr s1" by blast
      with b wm have "f lo Lo world 0 s1 = Some r" by simp
      from IH [OF this] show False by simp
    qed
  qed
  then show False by simp
qed

section \<open>C5: the paged loop and its calls of \<open>go_to_next_page\<close>\<close>

lemma new_session_counters:
  "next_calls new_session = 0 \<and> link_calls new_session = 0 \<and> current_page new_session = 1"
  by (simp add: new_session_def)

lemma listing_bounded:
  assumes "0 < N"
  shows "\<exists>e st'. scrape_platform_products_with_browser lower L world N = Some (e, st')
           \<and> int (next_calls st') \<le> N - 1"
proof (cases "browser_starts world")
  case (Some e)
  with assms show ?thesis
    by (simp add: scrape_platform_products_with_browser_def new_session_counters)
next
  case None
  from paged_loop_bounded [OF assms, of lower L world new_session] obtain e st' where
    r: "paged_loop lower L world N new_session = Some (e, st')"
    and b: "int (next_calls st') \<le> int (next_calls new_session)
              + max 0 (N - current_page new_session)"
    by blast
  from b assms have b': "int (next_calls st') \<le> N - 1"
    by (simp add: new_session_counters)
  from None r have "\<exists>e'. scrape_platform_products_with_browser lower L world N = Some (e', st')"
    by (cases e) (simp_all add: scrape_platform_products_with_browser_def)
  with b' show ?thesis by blast
qed

lemma listing_until_false:
  assumes "browser_starts world = None"
    and "\<forall>j\<le>k. \<exists>ls. links_found world j = Inr ls \<and> ls \<noteq> []"
    and "\<forall>j<k. next_page_result world j = Inr True \<and> page_settles world j = None"
    and "next_page_result world k = Inr False"
  shows "\<exists>st'. scrape_platform_products_with_browser lower L world 0
                  = Some (browser_closes world, st')
           \<and> next_calls st' = Suc k \<and> link_calls st' = Suc k"
proof -
  have "\<exists>st'. paged_loop lower L world 0 new_session = Some (None, st')
           \<and> next_calls st' = next_calls new_session + Suc k
           \<and> link_calls st' = link_calls new_session + Suc k"
    using assms(2-4) by (intro paged_loop_until_false) (simp_all add: new_session_counters)
  then obtain st' where r: "paged_loop lower L world 0 new_session = Some (None, st')"
    and c: "next_calls st' = Suc k" "link_calls st' = Suc k"
    by (auto simp add: new_session_counters)
  from assms(1) r have "scrape_platform_products_with_browser lower L world 0
                          = Some (browser_closes world, st')"
    by (simp add: scrape_platform_products_with_browser_def)
  with c show ?thesis by blast
qed

lemma listing_endless:
  assumes "browser_starts world = None"
    and "\<forall>j. (\<exists>ls. links_found world j = Inr ls \<and> ls \<noteq> [])
              \<and> next_page_result world j = Inr True \<and> page_settles world j = None"
  shows "scrape_platform_products_with_browser lower L world 0 = None"
proof -
  have "paged_loop lower L world 0 new_session = None"
    using assms(2) by (intro paged_loop_endless) simp
  with assms(1) show ?thesis by (simp add: scrape_platform_products_with_browser_def)
qed

lemma listing_any_number_of_calls:
  "\<exists>world e st'. scrape_platform_products_with_browser lower L world 0 = Some (e, st')
      \<and> next_calls st' = Suc n"
proof -
  let ?w = "three_page_world\<lparr>next_page_result := (\<lambda>k. Inr (k < n))\<rparr>"
  have "\<exists>st'. scrape_platform_products_with_browser lower L ?w 0
                  = Some (browser_closes ?w, st')
           \<and> next_calls st' = Suc n \<and> link_calls st' = Suc n"
    by (rule listing_until_false) (simp_all add: three_page_world_def)
  then show ?thesis by blast
qed

text \<open>
  C5. The loop is \<open>while max_pages == 0 or current_page <= max_pages\<close>. For
  \<open>max_pages = N > 0\<close> the run ends and has called \<open>go_to_next_page\<close> at most \<open>N\<close>
  times (indeed at most \<open>N - 1\<close> times). For \<open>max_pages = 0\<close>: when the first \<open>k + 1\<close>
  pages show links and the first false return of \<open>go_to_next_page\<close> is that of call
  \<open>k\<close> (counted from 0), the run processes \<open>k + 1\<close> pages and makes \<open>k + 1\<close> calls, one
  after each page; there is no bound on that number: when no call returns false the
  loop does not end, and every number of calls occurs in some run.
\<close>

theorem paged_loop_next_page_calls:
  "paged_loop lower L world max_pages st =
     (if max_pages = 0 \<or> current_page st \<le> max_pages
      then (case page_step lower L world max_pages st of
              Inl r \<Rightarrow> Some r
            | Inr st1 \<Rightarrow> paged_loop lower L world max_pages st1)
      else Some (None, st))
   \<and> (0 < max_pages \<longrightarrow>
        (\<exists>e st'. scrape_platform_products_with_browser lower L world max_pages = Some (e, st')
           \<and> int (next_calls st') \<le> max_pages \<and> int (next_calls st') \<le> max_pages - 1))
   \<and> (browser_starts world = None
        \<and> (\<forall>j\<le>k. \<exists>ls. links_found world j = Inr ls \<and> ls \<noteq> [])
        \<and> (\<forall>j<k. next_page_result world j = Inr True \<and> page_settles world j = None)
        \<and> next_page_result world k = Inr False
      \<longrightarrow> (\<exists>st'. scrape_platform_products_with_browser lower L world 0
                    = Some (browser_closes world, st')
             \<and> next_calls st' = Suc k \<and> link_calls st' = Suc k))
   \<and> (browser_starts world = None
        \<and> (\<forall>j. (\<exists>ls. links_found world j = Inr ls \<and> ls \<noteq> [])
                \<and> next_page_result world j = Inr True \<and> page_settles world j = None)
      \<longrightarrow> scrape_platform_products_with_browser lower L world 0 = None)
   \<and> (\<forall>n. \<exists>world' e st'.
          scrape_platform_products_with_browser lower L world' 0 = Some (e, st')
          \<and> next_calls st' = Suc n)"
proof (intro conjI impI allI)
  show "paged_loop lower L world max_pages st =
     (if max_pages = 0 \<or> current_page st \<le> max_pages
      then (case page_step lower L world max_pages st of
              Inl r \<Rightarrow> Some r
            | Inr st1 \<Rightarrow> paged_loop lower L world max_pages st1)
      else Some (None, st))"
    by (rule paged_loop.simps)
next
  assume "0 < max_pages"
  from listing_bounded [OF this, of lower L world]
  show "\<exists>e st'. scrape_platform_products_with_browser lower L world max_pages = Some (e, st')
           \<and> int (next_calls st') \<le> max_pages \<and> int (next_calls st') \<le> max_pages - 1"
    by fastforce
next
  assume "browser_starts world = None
        \<and> (\<forall>j\<le>k. \<exists>ls. links_found world j = Inr ls \<and> ls \<noteq> [])
        \<and> (\<forall>j<k. next_page_result world j = Inr True \<and> page_settles world j = None)
        \<and> next_page_result world k = Inr False"
  then show "\<exists>st'. scrape_platform_products_with_browser lower L world 0
                    = Some (browser_closes world, st')
             \<and> next_calls st' = Suc k \<and> link_calls st' = Suc k"
    by (intro listing_until_false) simp_all
next
  assume "browser_starts world = None
        \<and> (\<forall>j. (\<exists>ls. links_found world j = Inr ls \<and> ls \<noteq> [])
                \<and> next_page_result world j = Inr True \<and> page_settles world j = None)"
  then show "scrape_platform_products_with_browser lower L world 0 = None"
    by (intro listing_endless) simp_all
next
  fix n
  show "\<exists>world' e st'.
          scrape_platform_products_with_browser lower L world' 0 = Some (e, st')
          \<and> next_calls st' = Suc n"
    by (rule listing_any_number_of_calls)
qed

theorem paged_loop_next_page_calls_witness:
  "paged_loop ascii_lower [] three_page_world 2 (new_session\<lparr>current_page := 3\<rparr>)
     = Some (None, new_session\<lparr>current_page := 3\<rparr>)
   \<and> (\<exists>e st'. scrape_platform_products_with_browser ascii_lower [] three_page_world 2
                 = Some (e, st') \<and> int (next_calls st') \<le> 1)
   \<and> (\<exists>st'. scrape_platform_products_with_browser ascii_lower [] three_page_world 0
               = Some (None, st') \<and> next_calls st' = 3 \<and> link_calls st' = 3)
   \<and> scrape_platform_products_with_browser ascii_lower [] endless_world 0 = None"
proof -
  note t = paged_loop_next_page_calls
    [where lower = ascii_lower and L = "[]" and world = three_page_world
       and max_pages = 2 and st = "new_session\<lparr>current_page := 3\<rparr>" and k = 2]
  note u = paged_loop_next_page_calls
    [where lower = ascii_lower and L = "[]" and world = endless_world
       and max_pages = 0 and st = new_session and k = 0]
  have a: "paged_loop ascii_lower [] three_page_world 2 (new_session\<lparr>current_page := 3\<rparr>)
             = Some (None, new_session\<lparr>current_page := 3\<rparr>)"
    using t by simp
  have b: "\<exists>e st'. scrape_platform_products_with_browser ascii_lower [] three_page_world 2
                 = Some (e, st') \<and> int (next_calls st') \<le> 1"
    using t [THEN conjunct2, THEN conjunct1] by fastforce
  have h: "browser_starts three_page_world = None
        \<and> (\<forall>j\<le>2. \<exists>ls. links_found three_page_world j = Inr ls \<and> ls \<noteq> [])
        \<and> (\<forall>j<2. next_page_result three_page_world j = Inr True
                \<and> page_settles three_page_world j = None)
        \<and> next_page_result three_page_world 2 = Inr False"
    by (simp add: three_page_world_def)
  have c: "\<exists>st'. scrape_platform_products_with_browser ascii_lower [] three_page_world 0
               = Some (None, st') \<and> next_calls st' = 3 \<and> link_calls st' = 3"
    using t [THEN conjunct2, THEN conjunct2, THEN conjunct1] h
    by (simp add: three_page_world_def numeral_3_eq_3)
  have h': "browser_starts endless_world = None
        \<and> (\<forall>j. (\<exists>ls. links_found endless_world j = Inr ls \<and> ls \<noteq> [])
                \<and> next_page_result endless_world j = Inr True
                \<and> page_settles endless_world j = None)"
    by (simp add: endless_world_def three_page_world_def)
  have d: "scrape_platform_products_with_browser ascii_lower [] endless_world 0 = None"
    using u [THEN conjunct2, THEN conjunct2, THEN conjunct2, THEN conjunct1] h' by simp
  from a b c d show ?thesis by simp
qed

end
